theory Spec2Isabelle
  imports Main "HOL-Library.Word" "HOL-Library.Monad_Syntax"
begin

section \<open>Double-array trie of tdict.c: data model\<close>

text \<open>
  The C type \<^verbatim>\<open>long\<close> (64 bit) is modelled by \<^typ>\<open>int\<close>: every index the code
  computes stays below \<^verbatim>\<open>TRIE_INDEX_MAX + 256\<close>, so no signed overflow occurs.
  \<^verbatim>\<open>unsigned long\<close> sizes are \<^typ>\<open>nat\<close> (the counter \<open>used\<close>, which the code
  increments and decrements, is a 64 bit word). Where the code compares a \<^verbatim>\<open>long\<close> with
  an \<^verbatim>\<open>unsigned long\<close> size, the \<^verbatim>\<open>long\<close> is converted: a negative value becomes one
  above \<open>2 ^ 63\<close>, larger than any size, so it is never below the size; the model tests
  the sign. \<open>ulong\<close> is the conversion where a \<^verbatim>\<open>long\<close> is stored in an unsigned field.
  \<^verbatim>\<open>TrieChar\<close> is \<^verbatim>\<open>unsigned char\<close>. A C string is the list of its bytes before the
  terminator; a pointer into it is the remaining list, and reading at the end gives 0.
\<close>

type_synonym TrieChar = "8 word"
type_synonym short = "16 word"

definition TDICT_OK :: int where "TDICT_OK = 0"
definition TDICT_ERR :: int where "TDICT_ERR = 1"
definition TRIE_CHAR_MAX :: int where "TRIE_CHAR_MAX = 255"
definition TRIE_INDEX_ERROR :: int where "TRIE_INDEX_ERROR = 0"
definition TRIE_INDEX_HALFMAX :: int where "TRIE_INDEX_HALFMAX = 0x3fffffff"
definition TRIE_INDEX_MAX :: int where "TRIE_INDEX_MAX = 0x7fffffff"
definition DA_SIGNATURE :: int where "DA_SIGNATURE = 0xDAFCDAFC"
definition DA_POOL_FREE :: int where "DA_POOL_FREE = 1"
definition DA_POOL_ROOT :: int where "DA_POOL_ROOT = 2"
definition DA_POOL_BEGIN :: int where "DA_POOL_BEGIN = 3"
definition TAIL_START_BLOCKNO :: int where "TAIL_START_BLOCKNO = 2"

definition ulong :: "int \<Rightarrow> nat" where
  "ulong x = nat (x mod 2 ^ 64)"

text \<open>\<^verbatim>\<open>*p\<close> for a pointer into a zero-terminated string.\<close>

fun deref :: "TrieChar list \<Rightarrow> TrieChar" where
  "deref [] = 0"
| "deref (c # cs) = c"

text \<open>
  \<^verbatim>\<open>suffix[i]\<close> for a zero-terminated string and a signed index. At the length of the
  string stands the terminator. An index outside the string and its terminator reads
  memory that the string does not own; the model reads 0 there.
\<close>

definition char_at :: "TrieChar list \<Rightarrow> int \<Rightarrow> TrieChar" where
  "char_at s i = (if 0 \<le> i \<and> i < int (length s) then s ! nat i else 0)"

text \<open>
  A tail record. The pointers \<^verbatim>\<open>key\<close> and \<^verbatim>\<open>val\<close> are options (\<open>None\<close> is NULL);
  \<^verbatim>\<open>suffix\<close> is NULL or an owned string.
\<close>

record ('k, 'v) trieEntry =
  suffix :: "TrieChar list option"
  key :: "'k option"
  val :: "'v option"
  next_free :: int

text \<open>
  The type descriptor. A duplicator is a function on pointers when supplied.
  A destructor only acts on the caller's memory, so the model records whether one is
  supplied, and logs each invocation of a callback in the trie's \<open>calls\<close> trace.
  A destructor is the caller's code running in the middle of an operation: what it
  finds in the tail pool depends on the moment of the call. Its entry of the trace
  therefore holds the pointer it is handed and the tail pool as it stands at the call.
  The \<^verbatim>\<open>privdata\<close> pointer handed to every callback is left out.
\<close>

record ('k, 'v) trieType =
  encodingFunction :: "'k \<Rightarrow> TrieChar list"
  keyDup :: "('k option \<Rightarrow> 'k option) option"
  valDup :: "('v option \<Rightarrow> 'v option) option"
  keyDestructor :: bool
  valDestructor :: bool

datatype ('k, 'v) call =
  KeyDupCall "'k option"
| ValDupCall "'v option"
| KeyDestructorCall "'k option" "('k, 'v) trieEntry list"
| ValDestructorCall "'v option" "('k, 'v) trieEntry list"

text \<open>
  The trie. \<open>base\<close> and \<open>check\<close> are the two arrays (the empty list is the NULL
  pointer left by \<^verbatim>\<open>_trieReset\<close>), \<open>calls\<close> is the trace of callback invocations.
\<close>

record ('k, 'v) trie =
  base :: "int list"
  check :: "int list"
  dasize :: nat
  used :: "64 word"
  tails :: "('k, 'v) trieEntry list"
  tailsize :: nat
  first_free :: nat
  iterators :: int
  type :: "('k, 'v) trieType"
  calls :: "('k, 'v) call list"

subsection \<open>The bounds-checked access macros of tdict.h\<close>

text \<open>
  \<^verbatim>\<open>(i) < (t)->dasize\<close> compares a \<^verbatim>\<open>long\<close> with an \<^verbatim>\<open>unsigned long\<close>: a negative
  index is out of range.
\<close>

definition in_da :: "('k, 'v) trie \<Rightarrow> int \<Rightarrow> bool" where
  "in_da t i = (0 \<le> i \<and> i < int (dasize t))"

definition trieSetBase :: "('k, 'v) trie \<Rightarrow> int \<Rightarrow> int \<Rightarrow> ('k, 'v) trie" where
  "trieSetBase t i v = (if in_da t i then t\<lparr>base := (base t)[nat i := v]\<rparr> else t)"

definition trieSetCheck :: "('k, 'v) trie \<Rightarrow> int \<Rightarrow> int \<Rightarrow> ('k, 'v) trie" where
  "trieSetCheck t i v = (if in_da t i then t\<lparr>check := (check t)[nat i := v]\<rparr> else t)"

definition trieGetBase :: "('k, 'v) trie \<Rightarrow> int \<Rightarrow> int" where
  "trieGetBase t i = (if in_da t i then base t ! nat i else TRIE_INDEX_ERROR)"

definition trieGetCheck :: "('k, 'v) trie \<Rightarrow> int \<Rightarrow> int" where
  "trieGetCheck t i = (if in_da t i then check t ! nat i else TRIE_INDEX_ERROR)"

definition trieBranchEnd :: "('k, 'v) trie \<Rightarrow> int \<Rightarrow> bool" where
  "trieBranchEnd t i = (if in_da t i then base t ! nat i < 0 else False)"

definition trieGetTailIndex :: "('k, 'v) trie \<Rightarrow> int \<Rightarrow> int" where
  "trieGetTailIndex t i = (if in_da t i then - (base t ! nat i) else TRIE_INDEX_ERROR)"

definition trieSetTailIndex :: "('k, 'v) trie \<Rightarrow> int \<Rightarrow> int \<Rightarrow> ('k, 'v) trie" where
  "trieSetTailIndex t i v = (if in_da t i then t\<lparr>base := (base t)[nat i := - v]\<rparr> else t)"

definition in_tails :: "('k, 'v) trie \<Rightarrow> int \<Rightarrow> bool" where
  "in_tails t i = (0 \<le> i - TAIL_START_BLOCKNO \<and> i - TAIL_START_BLOCKNO < int (tailsize t))"

definition trieGetTailSuffix :: "('k, 'v) trie \<Rightarrow> int \<Rightarrow> TrieChar list option" where
  "trieGetTailSuffix t i =
     (if in_tails t i then suffix (tails t ! nat (i - TAIL_START_BLOCKNO)) else None)"

text \<open>
  A pointer to a tail record is the number of its slot in \<open>tails\<close>; \<open>None\<close> is NULL.
\<close>

definition trieGetTrieEntry :: "('k, 'v) trie \<Rightarrow> int \<Rightarrow> nat option" where
  "trieGetTrieEntry t i =
     (if in_tails t i then Some (nat (i - TAIL_START_BLOCKNO)) else None)"

subsection \<open>Sizing and the free ring of the double array\<close>

text \<open>
  \<^verbatim>\<open>_trieNextPower\<close>: the loop doubles \<open>i\<close> from \<^verbatim>\<open>DA_POOL_BEGIN\<close> until it exceeds
  the requested size \<open>sz\<close>. Not returning is the value \<open>None\<close>.
\<close>

partial_function (option) trieNextPower_loop :: "int \<Rightarrow> int \<Rightarrow> int option" where
  "trieNextPower_loop i sz = (if i > sz then Some i else trieNextPower_loop (i * 2) sz)"

declare trieNextPower_loop.simps [code]

definition trieNextPower :: "int \<Rightarrow> int option" where
  "trieNextPower sz =
     (if sz \<ge> TRIE_INDEX_HALFMAX then Some TRIE_INDEX_MAX
      else trieNextPower_loop DA_POOL_BEGIN sz)"

text \<open>
  \<^verbatim>\<open>trieExpand\<close>. \<open>da_realloc\<close> is the pair of \<^verbatim>\<open>zrealloc\<close> calls with the new
  \<open>dasize\<close>: \<^verbatim>\<open>zrealloc\<close> leaves the new cells uninitialised, the code writes every
  one of them before it returns, and the model starts them at 0. \<open>expand_step\<close> is the
  body of the loop that links the new cells.
\<close>

definition da_realloc :: "('k, 'v) trie \<Rightarrow> nat \<Rightarrow> ('k, 'v) trie" where
  "da_realloc t realsize =
     t\<lparr>base := base t @ replicate (realsize - dasize t) 0,
       check := check t @ replicate (realsize - dasize t) 0,
       dasize := realsize\<rparr>"

definition expand_step :: "nat \<Rightarrow> ('k, 'v) trie \<Rightarrow> ('k, 'v) trie" where
  "expand_step i t = trieSetBase (trieSetCheck t (int i) (- (int i + 1))) (int i + 1) (- int i)"

definition trieExpand :: "('k, 'v) trie \<Rightarrow> int \<Rightarrow> (int \<times> ('k, 'v) trie) option" where
  "trieExpand t sz =
     (if sz \<le> 0 \<or> TRIE_INDEX_MAX \<le> sz then Some (TDICT_ERR, t)
      else if int (dasize t) \<ge> sz then Some (TDICT_OK, t)
      else do {
        realsize \<leftarrow> trieNextPower sz;
        let new_begin = dasize t;
        let t1 = da_realloc t (nat realsize);
        let t2 = fold expand_step [new_begin ..< nat (realsize - 1)] t1;
        let free_tail = - trieGetBase t2 DA_POOL_FREE;
        let t3 = trieSetCheck t2 free_tail (- int new_begin);
        let t4 = trieSetBase t3 (int new_begin) (- free_tail);
        let t5 = trieSetCheck t4 (realsize - 1) (- DA_POOL_FREE);
        let t6 = trieSetBase t5 DA_POOL_FREE (- (realsize - 1));
        Some (TDICT_OK, t6\<lparr>check := (check t6)[0 := int (dasize t6)]\<rparr>)
      })"

definition daAssignCell :: "('k, 'v) trie \<Rightarrow> int \<Rightarrow> ('k, 'v) trie" where
  "daAssignCell t s =
     (let prev = - trieGetBase t s;
          next = - trieGetCheck t s;
          t1 = trieSetCheck t prev (- next)
      in trieSetBase t1 next (- prev))"

partial_function (option) daFreeCell_loop :: "('k, 'v) trie \<Rightarrow> int \<Rightarrow> int \<Rightarrow> int option" where
  "daFreeCell_loop t s i =
     (if i \<noteq> DA_POOL_FREE \<and> i < s then daFreeCell_loop t s (- trieGetCheck t i)
      else Some i)"

declare daFreeCell_loop.simps [code]

definition daFreeCell :: "('k, 'v) trie \<Rightarrow> int \<Rightarrow> ('k, 'v) trie option" where
  "daFreeCell t s = do {
     i \<leftarrow> daFreeCell_loop t s (- trieGetCheck t DA_POOL_FREE);
     let prev = - trieGetBase t i;
     let t1 = trieSetCheck t s (- i);
     let t2 = trieSetBase t1 s (- prev);
     let t3 = trieSetCheck t2 prev (- s);
     Some (trieSetBase t3 i (- s))
   }"

definition daPrepareSpace :: "('k, 'v) trie \<Rightarrow> int \<Rightarrow> (bool \<times> ('k, 'v) trie) option" where
  "daPrepareSpace t s = do {
     (r, t1) \<leftarrow> trieExpand t s;
     Some (r = TDICT_OK \<and> trieGetCheck t1 s < 0, t1)
   }"

text \<open>
  \<^verbatim>\<open>MIN_VAL(a,b)\<close> with \<open>a\<close> a \<^verbatim>\<open>long\<close> and \<open>b\<close> the \<^verbatim>\<open>unsigned long\<close> size, and
  with the arguments the other way round: the comparison is unsigned, so a negative
  \<open>a\<close> is not below \<open>b\<close>; the result is stored in a \<^verbatim>\<open>long\<close>.
\<close>

definition MIN_VAL_lu :: "int \<Rightarrow> nat \<Rightarrow> int" where
  "MIN_VAL_lu a b = (if 0 \<le> a \<and> a < int b then a else int b)"

definition MIN_VAL_ul :: "nat \<Rightarrow> int \<Rightarrow> int" where
  "MIN_VAL_ul a b = (if b < 0 \<or> int a < b then int a else b)"

definition daHasChildren :: "('k, 'v) trie \<Rightarrow> int \<Rightarrow> bool" where
  "daHasChildren t s =
     (let b = trieGetBase t s in
      if TRIE_INDEX_ERROR = b \<or> b < 0 then False
      else let max_c = min TRIE_CHAR_MAX (TRIE_INDEX_MAX - b);
               max_c = MIN_VAL_ul (dasize t) max_c
           in list_ex (\<lambda>c. trieGetCheck t (b + int c) = s) [0 ..< nat max_c])"

text \<open>\<^verbatim>\<open>_daPrune\<close>: the loop climbs through \<open>check\<close>; not returning is \<open>None\<close>.\<close>

partial_function (option) daPrune :: "('k, 'v) trie \<Rightarrow> int \<Rightarrow> int \<Rightarrow> ('k, 'v) trie option" where
  "daPrune t p s =
     (if p \<noteq> s \<and> \<not> daHasChildren t s then
        (let parent = trieGetCheck t s in
         Option.bind (daFreeCell t s) (\<lambda>t1. daPrune t1 p parent))
      else Some t)"

declare daPrune.simps [code]

text \<open>
  The \<^verbatim>\<open>Symbols\<close> set is the list of its first \<^verbatim>\<open>num_symbols\<close> entries.
  \<^verbatim>\<open>symbols_add\<close> finds the place by binary search and shifts the rest up.
\<close>

function symbols_add_search :: "TrieChar list \<Rightarrow> nat \<Rightarrow> nat \<Rightarrow> TrieChar \<Rightarrow> nat option" where
  "symbols_add_search syms lower upper c =
     (if lower < upper then
        (let middle = (lower + upper) div 2 in
         if c > syms ! middle then symbols_add_search syms (middle + 1) upper c
         else if c < syms ! middle then symbols_add_search syms lower middle c
         else None)
      else Some lower)"
  by pat_completeness auto
termination
  by (relation "measure (\<lambda>(syms, lower, upper, c). upper - lower)") auto

declare symbols_add_search.simps [simp del]

definition symbols_add :: "TrieChar list \<Rightarrow> TrieChar \<Rightarrow> TrieChar list" where
  "symbols_add syms c =
     (case symbols_add_search syms 0 (length syms) c of
        None \<Rightarrow> syms
      | Some lower \<Rightarrow> take lower syms @ [c] @ drop lower syms)"

definition daFillSymbols :: "('k, 'v) trie \<Rightarrow> int \<Rightarrow> TrieChar list" where
  "daFillSymbols t s =
     (let b = trieGetBase t s;
          max_c = min TRIE_CHAR_MAX (TRIE_INDEX_MAX - b);
          max_c = MIN_VAL_lu max_c (dasize t)
      in map word_of_nat (filter (\<lambda>c. trieGetCheck t (b + int c) = s) [0 ..< nat max_c]))"

fun daFitSymbols :: "('k, 'v) trie \<Rightarrow> int \<Rightarrow> TrieChar list \<Rightarrow> (int \<times> ('k, 'v) trie) option" where
  "daFitSymbols t b [] = Some (TDICT_OK, t)"
| "daFitSymbols t b (sy # syms) =
     (if b > TRIE_INDEX_MAX - uint sy then Some (TDICT_ERR, t)
      else case daPrepareSpace t (b + uint sy) of
             None \<Rightarrow> None
           | Some (ok, t1) \<Rightarrow> if \<not> ok then Some (TDICT_ERR, t1) else daFitSymbols t1 b syms)"

text \<open>The three loops of \<^verbatim>\<open>_daFindFreeBase\<close>, in the order of the source.\<close>

partial_function (option) daFindFreeBase_scan :: "('k, 'v) trie \<Rightarrow> TrieChar \<Rightarrow> int \<Rightarrow> int option" where
  "daFindFreeBase_scan t first_sym s =
     (if s \<noteq> DA_POOL_FREE \<and> s < uint first_sym + DA_POOL_BEGIN
      then daFindFreeBase_scan t first_sym (- trieGetCheck t s)
      else Some s)"

declare daFindFreeBase_scan.simps [code]

partial_function (option) daFindFreeBase_grow ::
    "('k, 'v) trie \<Rightarrow> int \<Rightarrow> (int option \<times> ('k, 'v) trie) option" where
  "daFindFreeBase_grow t s =
     Option.bind (trieExpand t s) (\<lambda>(r, t1).
       if r \<noteq> TDICT_OK then Some (None, t1)
       else if trieGetCheck t1 s < 0 then Some (Some s, t1)
       else daFindFreeBase_grow t1 (s + 1))"

declare daFindFreeBase_grow.simps [code]

partial_function (option) daFindFreeBase_fit ::
    "('k, 'v) trie \<Rightarrow> TrieChar list \<Rightarrow> int \<Rightarrow> (int \<times> ('k, 'v) trie) option" where
  "daFindFreeBase_fit t symbols s =
     Option.bind (daFitSymbols t (s - uint (hd symbols)) symbols) (\<lambda>(r, t1).
       if r = TDICT_OK then Some (s - uint (hd symbols), t1)
       else if - trieGetCheck t1 s = DA_POOL_FREE then
         Option.bind (trieExpand t1 (int (dasize t1) + 1)) (\<lambda>(e, t2).
           if e \<noteq> TDICT_OK then Some (TRIE_INDEX_ERROR, t2)
           else daFindFreeBase_fit t2 symbols (- trieGetCheck t2 s))
       else daFindFreeBase_fit t1 symbols (- trieGetCheck t1 s))"

declare daFindFreeBase_fit.simps [code]

definition daFindFreeBase :: "('k, 'v) trie \<Rightarrow> TrieChar list \<Rightarrow> (int \<times> ('k, 'v) trie) option" where
  "daFindFreeBase t symbols =
     (let first_sym = hd symbols in
      Option.bind (daFindFreeBase_scan t first_sym (- trieGetCheck t DA_POOL_FREE)) (\<lambda>s.
        if s = DA_POOL_FREE then
          Option.bind (daFindFreeBase_grow t (uint first_sym + DA_POOL_BEGIN)) (\<lambda>(r, t1).
            case r of None \<Rightarrow> Some (TRIE_INDEX_ERROR, t1)
                    | Some s1 \<Rightarrow> daFindFreeBase_fit t1 symbols s1)
        else daFindFreeBase_fit t symbols s))"

subsection \<open>The tail pool\<close>

text \<open>
  \<^verbatim>\<open>_tailAllocCell\<close>. \<^verbatim>\<open>zrealloc\<close> aborts the process when memory runs out, so the
  branch for a NULL result is not modelled; the new slots are uninitialised, and the
  model starts them with NULL pointers and \<open>next_free = 0\<close>. \<open>tails[i]\<close> is a plain
  array access in the source.
\<close>

definition empty_entry :: "('k, 'v) trieEntry" where
  "empty_entry = \<lparr>suffix = None, key = None, val = None, next_free = 0\<rparr>"

definition set_next_free :: "('k, 'v) trie \<Rightarrow> nat \<Rightarrow> int \<Rightarrow> ('k, 'v) trie" where
  "set_next_free t i v = t\<lparr>tails := (tails t)[i := (tails t ! i)\<lparr>next_free := v\<rparr>]\<rparr>"

definition tailAllocCell :: "('k, 'v) trie \<Rightarrow> (int \<times> ('k, 'v) trie) option" where
  "tailAllocCell t =
     Option.bind
       (if 0 \<noteq> first_free t then
          Some (Some (first_free t, t\<lparr>first_free := ulong (next_free (tails t ! first_free t))\<rparr>))
        else
          Option.bind (trieNextPower (int (tailsize t))) (\<lambda>newsize.
            if newsize = int (tailsize t) then Some None
            else
              let block = tailsize t;
                  t1 = t\<lparr>tails := tails t @ replicate (nat newsize - tailsize t) empty_entry,
                         tailsize := nat newsize\<rparr>;
                  t2 = fold (\<lambda>i t. set_next_free t i (int i + 1)) [block + 1 ..< nat (newsize - 1)] t1;
                  t3 = set_next_free t2 (nat (newsize - 1)) 0
              in Some (Some (block, t3\<lparr>first_free := block + 1\<rparr>))))
       (\<lambda>r. case r of
          None \<Rightarrow> Some (- 1, t)
        | Some (block, t4) \<Rightarrow>
            Some (int block + TAIL_START_BLOCKNO,
                  t4\<lparr>tails := (tails t4)[block := \<lparr>suffix = None, key = None, val = None, next_free = - 1\<rparr>],
                     used := used t4 + 1\<rparr>))"

partial_function (option) tailFreeCell_loop ::
    "('k, 'v) trie \<Rightarrow> int \<Rightarrow> int \<Rightarrow> int \<Rightarrow> (int \<times> int) option" where
  "tailFreeCell_loop t block i j =
     (if i \<noteq> 0 \<and> i < block then tailFreeCell_loop t block (next_free (tails t ! nat i)) i
      else Some (i, j))"

declare tailFreeCell_loop.simps [code]

definition callKeyDestructor :: "('k, 'v) trie \<Rightarrow> 'k option \<Rightarrow> ('k, 'v) trie" where
  "callKeyDestructor t x =
     (if keyDestructor (type t) then t\<lparr>calls := calls t @ [KeyDestructorCall x (tails t)]\<rparr> else t)"

definition callValDestructor :: "('k, 'v) trie \<Rightarrow> 'v option \<Rightarrow> ('k, 'v) trie" where
  "callValDestructor t x =
     (if valDestructor (type t) then t\<lparr>calls := calls t @ [ValDestructorCall x (tails t)]\<rparr> else t)"

definition tailFreeCell :: "('k, 'v) trie \<Rightarrow> int \<Rightarrow> ('k, 'v) trie option" where
  "tailFreeCell t block0 =
     (let block = block0 - TAIL_START_BLOCKNO in
      if block < 0 \<or> block \<ge> int (tailsize t) then Some t
      else
        let b = nat block;
            t1 = t\<lparr>tails := (tails t)[b := (tails t ! b)\<lparr>suffix := None\<rparr>]\<rparr>;
            t2 = callKeyDestructor t1 (key (tails t1 ! b));
            t3 = callValDestructor t2 (val (tails t2 ! b))
        in Option.bind (tailFreeCell_loop t3 block (int (first_free t3)) 0) (\<lambda>(i, j).
             let t4 = set_next_free t3 b i;
                 t5 = (if 0 \<noteq> j then set_next_free t4 (nat j) block
                       else t4\<lparr>first_free := ulong block\<rparr>)
             in Some (t5\<lparr>used := used t5 - 1\<rparr>)))"

definition trieSetTailSuffix ::
    "('k, 'v) trie \<Rightarrow> int \<Rightarrow> TrieChar list option \<Rightarrow> int \<times> ('k, 'v) trie" where
  "trieSetTailSuffix t index0 suf =
     (let index = index0 - TAIL_START_BLOCKNO in
      if index \<ge> 0 \<and> index < int (tailsize t) then
        (let tmp = map_option (takeWhile (\<lambda>c. c \<noteq> 0)) suf in
         (TDICT_OK, t\<lparr>tails := (tails t)[nat index := (tails t ! nat index)\<lparr>suffix := tmp\<rparr>]\<rparr>))
      else (TDICT_ERR, t))"

definition trieAddTailSuffix ::
    "('k, 'v) trie \<Rightarrow> TrieChar list \<Rightarrow> (int \<times> ('k, 'v) trie) option" where
  "trieAddTailSuffix t suf =
     Option.bind (tailAllocCell t) (\<lambda>(new_block, t1).
       Some (new_block, snd (trieSetTailSuffix t1 new_block (Some suf))))"

text \<open>
  \<^verbatim>\<open>_trieWalkTail\<close> returns the advanced \<^verbatim>\<open>suffix_idx\<close> for \<^verbatim>\<open>TDICT_OK\<close> and \<open>None\<close>
  for \<^verbatim>\<open>TDICT_ERR\<close>. The index is a \<^verbatim>\<open>short\<close>: a 16-bit word, read as a signed number
  when it indexes the suffix. Incrementing it at 32767 wraps to -32768, so that after
  32768 matched bytes of one suffix the source reads in front of the string.
\<close>

definition trieWalkTail :: "('k, 'v) trie \<Rightarrow> int \<Rightarrow> short \<Rightarrow> TrieChar \<Rightarrow> short option" where
  "trieWalkTail t s suffix_idx c =
     (case trieGetTailSuffix t s of
        None \<Rightarrow> None
      | Some suf \<Rightarrow>
          let suffix_char = char_at suf (sint suffix_idx) in
          if suffix_char = c then Some (if 0 \<noteq> suffix_char then suffix_idx + 1 else suffix_idx)
          else None)"

subsection \<open>Insertion into the double array\<close>

definition reindex_grandchildren :: "('k, 'v) trie \<Rightarrow> int \<Rightarrow> int \<Rightarrow> int \<Rightarrow> ('k, 'v) trie" where
  "reindex_grandchildren t old_next_base old_next new_next =
     (let max_c = min TRIE_CHAR_MAX (TRIE_INDEX_MAX - old_next_base) in
      fold (\<lambda>c t. if trieGetCheck t (old_next_base + int c) = old_next
                   then trieSetCheck t (old_next_base + int c) new_next else t)
        [0 ..< nat max_c] t)"

fun trieReIndex_loop ::
    "('k, 'v) trie \<Rightarrow> int \<Rightarrow> int \<Rightarrow> int \<Rightarrow> TrieChar list \<Rightarrow> ('k, 'v) trie option" where
  "trieReIndex_loop t s old_base new_base [] = Some t"
| "trieReIndex_loop t s old_base new_base (c # cs) =
     (let old_next = old_base + uint c;
          new_next = new_base + uint c;
          old_next_base = trieGetBase t old_next;
          t1 = daAssignCell t new_next;
          t2 = trieSetCheck t1 new_next s;
          t3 = trieSetBase t2 new_next old_next_base;
          t4 = (if old_next_base > 0
                then reindex_grandchildren t3 old_next_base old_next new_next else t3)
      in case daFreeCell t4 old_next of
           None \<Rightarrow> None
         | Some t5 \<Rightarrow> trieReIndex_loop t5 s old_base new_base cs)"

definition trieReIndex :: "('k, 'v) trie \<Rightarrow> int \<Rightarrow> int \<Rightarrow> (int \<times> ('k, 'v) trie) option" where
  "trieReIndex t s new_base =
     (let old_base = trieGetBase t s;
          symbols = daFillSymbols t s
      in Option.bind (trieReIndex_loop t s old_base new_base symbols) (\<lambda>t1.
           Some (TDICT_OK, trieSetBase t1 s new_base)))"

text \<open>
  \<^verbatim>\<open>_daInsert\<close>. \<open>daInsert_collides\<close> is the condition
  \<^verbatim>\<open>base > TRIE_INDEX_MAX - c || !_daPrepareSpace(t, next)\<close> with its short circuit;
  \<open>daInsert_claim\<close> is the common end of the function.
\<close>

definition daInsert_collides ::
    "('k, 'v) trie \<Rightarrow> int \<Rightarrow> TrieChar \<Rightarrow> int \<Rightarrow> (bool \<times> ('k, 'v) trie) option" where
  "daInsert_collides t b c next =
     (if b > TRIE_INDEX_MAX - uint c then Some (True, t)
      else Option.bind (daPrepareSpace t next) (\<lambda>(ok, t1). Some (\<not> ok, t1)))"

definition daInsert_claim :: "('k, 'v) trie \<Rightarrow> int \<Rightarrow> int \<Rightarrow> (int \<times> ('k, 'v) trie) option" where
  "daInsert_claim t s next = Some (next, trieSetCheck (daAssignCell t next) next s)"

definition daInsert :: "('k, 'v) trie \<Rightarrow> int \<Rightarrow> TrieChar \<Rightarrow> (int \<times> ('k, 'v) trie) option" where
  "daInsert t s c =
     (let b = trieGetBase t s in
      if b > 0 then
        (let next = b + uint c in
         if trieGetCheck t next = s then Some (next, t)
         else
           Option.bind (daInsert_collides t b c next) (\<lambda>(collides, t0).
             if collides then
               Option.bind (daFindFreeBase t0 (symbols_add (daFillSymbols t0 s) c)) (\<lambda>(new_base, t1).
                 if TRIE_INDEX_ERROR = new_base then Some (TRIE_INDEX_ERROR, t1)
                 else Option.bind (trieReIndex t1 s new_base) (\<lambda>(r, t2).
                        daInsert_claim t2 s (new_base + uint c)))
             else daInsert_claim t0 s next))
      else
        Option.bind (daFindFreeBase t (symbols_add [] c)) (\<lambda>(new_base, t1).
          if TRIE_INDEX_ERROR = new_base then Some (TRIE_INDEX_ERROR, t1)
          else daInsert_claim (trieSetBase t1 s new_base) s (new_base + uint c)))"

definition trieInsertInBranch ::
    "('k, 'v) trie \<Rightarrow> int \<Rightarrow> TrieChar list \<Rightarrow> (int \<times> ('k, 'v) trie) option" where
  "trieInsertInBranch t sep_node suf =
     Option.bind (daInsert t sep_node (deref suf)) (\<lambda>(new_da, t1).
       if TRIE_INDEX_ERROR = new_da then Some (TDICT_ERR, t1)
       else
         let suf1 = (if 0 \<noteq> deref suf then tl suf else suf) in
         Option.bind (trieAddTailSuffix t1 suf1) (\<lambda>(new_tail, t2).
           Some (new_tail, trieSetTailIndex t2 new_da new_tail)))"

text \<open>
  The first loop of \<^verbatim>\<open>_trieInsertInTail\<close> advances in the old suffix and the new one
  while they agree. It yields the state \<open>s\<close> and the two pointers where they differ, or
  where \<^verbatim>\<open>_daInsert\<close> failed (\<open>Inl\<close>). When both strings end together the source
  reads on past the two terminators; the model has no result there.
\<close>

fun trieInsertInTail_loop ::
    "('k, 'v) trie \<Rightarrow> int \<Rightarrow> TrieChar list \<Rightarrow> TrieChar list
       \<Rightarrow> ((int \<times> ('k, 'v) trie) + (int \<times> TrieChar list \<times> TrieChar list \<times> ('k, 'v) trie)) option" where
  "trieInsertInTail_loop t s [] suf =
     (if 0 = deref suf then None else Some (Inr (s, [], suf, t)))"
| "trieInsertInTail_loop t s (c # p) suf =
     (if c = deref suf then
        (case daInsert t s c of
           None \<Rightarrow> None
         | Some (tt, t1) \<Rightarrow>
             if TRIE_INDEX_ERROR = tt then Some (Inl (s, t1))
             else trieInsertInTail_loop t1 tt p (tl suf))
      else Some (Inr (s, c # p, suf, t)))"

definition trieInsertInTail_fail ::
    "('k, 'v) trie \<Rightarrow> int \<Rightarrow> int \<Rightarrow> int \<Rightarrow> (int \<times> ('k, 'v) trie) option" where
  "trieInsertInTail_fail t sep_node old_tail s =
     Option.bind (daPrune t sep_node s) (\<lambda>t1.
       Some (TDICT_ERR, trieSetTailIndex t1 sep_node old_tail))"

definition trieInsertInTail ::
    "('k, 'v) trie \<Rightarrow> int \<Rightarrow> TrieChar list \<Rightarrow> (int \<times> ('k, 'v) trie) option" where
  "trieInsertInTail t sep_node suf =
     (let old_tail = trieGetTailIndex t sep_node in
      case trieGetTailSuffix t old_tail of
        None \<Rightarrow> Some (TDICT_ERR, t)
      | Some old_suffix \<Rightarrow>
          Option.bind (trieInsertInTail_loop t sep_node old_suffix suf) (\<lambda>r.
            case r of
              Inl (s, t1) \<Rightarrow> trieInsertInTail_fail t1 sep_node old_tail s
            | Inr (s, p, suf1, t1) \<Rightarrow>
                Option.bind (daInsert t1 s (deref p)) (\<lambda>(old_da, t2).
                  if TRIE_INDEX_ERROR = old_da then trieInsertInTail_fail t2 sep_node old_tail s
                  else
                    let p1 = (if 0 \<noteq> deref p then tl p else p);
                        t3 = snd (trieSetTailSuffix t2 old_tail (Some p1));
                        t4 = trieSetTailIndex t3 old_da old_tail
                    in trieInsertInBranch t4 s suf1)))"

subsection \<open>The trie operations\<close>

definition trieReset :: "('k, 'v) trie \<Rightarrow> ('k, 'v) trie" where
  "trieReset t = t\<lparr>base := [], check := [], dasize := 0, used := 0, tailsize := 0,
                    first_free := 0, tails := [], iterators := 0\<rparr>"

definition trieSetup :: "('k, 'v) trie \<Rightarrow> int \<times> ('k, 'v) trie" where
  "trieSetup t =
     (TDICT_OK, t\<lparr>dasize := nat DA_POOL_BEGIN,
                  base := [DA_SIGNATURE, - 1, DA_POOL_BEGIN],
                  check := [DA_POOL_BEGIN, - 1, 0]\<rparr>)"

text \<open>
  \<^verbatim>\<open>trieCreate\<close>; the alphabet ranges that \<^verbatim>\<open>initRange\<close> fills are part of the
  descriptor's \<open>encodingFunction\<close>.
\<close>

definition trieCreate :: "('k, 'v) trieType \<Rightarrow> ('k, 'v) trie" where
  "trieCreate ty =
     snd (trieSetup (trieReset
       \<lparr>base = [], check = [], dasize = 0, used = 0, tails = [], tailsize = 0,
        first_free = 0, iterators = 0, type = ty, calls = []\<rparr>))"

text \<open>\<^verbatim>\<open>_trieWalk\<close> returns the next state for \<^verbatim>\<open>TDICT_OK\<close> and \<open>None\<close> for \<^verbatim>\<open>TDICT_ERR\<close>.\<close>

definition trieWalk :: "('k, 'v) trie \<Rightarrow> int \<Rightarrow> TrieChar \<Rightarrow> int option" where
  "trieWalk t s c =
     (let next = trieGetBase t s + uint c in
      if trieGetCheck t next = s then Some next else None)"

text \<open>
  The loop \<^verbatim>\<open>for(p = internalKey; !trieBranchEnd(t, s); p++)\<close> that
  \<^verbatim>\<open>_trieAddKey\<close>, \<^verbatim>\<open>trieFind\<close> and \<^verbatim>\<open>trieDelete\<close> share: \<open>Inl\<close> is the state and
  the pointer where \<^verbatim>\<open>_trieWalk\<close> failed, \<open>Inr\<close> those at the end of the loop.
\<close>

fun walk_branches ::
    "('k, 'v) trie \<Rightarrow> int \<Rightarrow> TrieChar list \<Rightarrow> (int \<times> TrieChar list) + (int \<times> TrieChar list)" where
  "walk_branches t s [] =
     (if trieBranchEnd t s then Inr (s, [])
      else case trieWalk t s 0 of None \<Rightarrow> Inl (s, []) | Some s1 \<Rightarrow> Inr (s1, []))"
| "walk_branches t s (c # p) =
     (if trieBranchEnd t s then Inr (s, c # p)
      else case trieWalk t s c of
             None \<Rightarrow> Inl (s, c # p)
           | Some s1 \<Rightarrow> if 0 = c then Inr (s1, c # p) else walk_branches t s1 p)"

text \<open>
  The loop \<^verbatim>\<open>for( ; ; p++)\<close> over the tail that the same functions share: whether
  the rest of the key equals the stored suffix.
\<close>

fun walk_tail :: "('k, 'v) trie \<Rightarrow> int \<Rightarrow> short \<Rightarrow> TrieChar list \<Rightarrow> bool" where
  "walk_tail t index suffix_idx [] =
     (case trieWalkTail t index suffix_idx 0 of None \<Rightarrow> False | Some i \<Rightarrow> True)"
| "walk_tail t index suffix_idx (c # p) =
     (case trieWalkTail t index suffix_idx c of
        None \<Rightarrow> False
      | Some i \<Rightarrow> if 0 = c then True else walk_tail t index i p)"

definition trieAddKey :: "('k, 'v) trie \<Rightarrow> 'k \<Rightarrow> (int \<times> ('k, 'v) trie) option" where
  "trieAddKey t0 k =
     (let t = (if base t0 = [] then snd (trieSetup t0) else t0);
          internalKey = encodingFunction (type t) k
      in case walk_branches t DA_POOL_ROOT internalKey of
           Inl (s, p) \<Rightarrow> trieInsertInBranch t s p
         | Inr (s, sep) \<Rightarrow>
             let index = trieGetTailIndex t s in
             if walk_tail t index 0 sep then Some (index, t)
             else trieInsertInTail t s sep)"

text \<open>
  The macros \<^verbatim>\<open>trieSetTailKey\<close> and \<^verbatim>\<open>trieSetTailVal\<close> as tdict.h has them: with
  a duplicator, the duplicator is called on the slot's current pointer and its result is
  dropped; without one, the pointer is stored.
\<close>

definition trieSetTailKey :: "('k, 'v) trie \<Rightarrow> int \<Rightarrow> 'k option \<Rightarrow> ('k, 'v) trie" where
  "trieSetTailKey t i k =
     (if in_tails t i then
        (let n = nat (i - TAIL_START_BLOCKNO) in
         case keyDup (type t) of
           Some dup \<Rightarrow> t\<lparr>calls := calls t @ [KeyDupCall (key (tails t ! n))]\<rparr>
         | None \<Rightarrow> t\<lparr>tails := (tails t)[n := (tails t ! n)\<lparr>key := k\<rparr>]\<rparr>)
      else t)"

definition trieSetTailVal :: "('k, 'v) trie \<Rightarrow> int \<Rightarrow> 'v option \<Rightarrow> ('k, 'v) trie" where
  "trieSetTailVal t i v =
     (if in_tails t i then
        (let n = nat (i - TAIL_START_BLOCKNO) in
         case valDup (type t) of
           Some dup \<Rightarrow> t\<lparr>calls := calls t @ [ValDupCall (val (tails t ! n))]\<rparr>
         | None \<Rightarrow> t\<lparr>tails := (tails t)[n := (tails t ! n)\<lparr>val := v\<rparr>]\<rparr>)
      else t)"

definition trieAdd :: "('k, 'v) trie \<Rightarrow> 'k \<Rightarrow> 'v option \<Rightarrow> (int \<times> ('k, 'v) trie) option" where
  "trieAdd t k v =
     Option.bind (trieAddKey t k) (\<lambda>(index, t1).
       if index = TRIE_INDEX_ERROR \<or> index = TDICT_ERR \<or> index = - 1 then Some (TDICT_ERR, t1)
       else Some (TDICT_OK, trieSetTailVal (trieSetTailKey t1 index (Some k)) index v))"

definition trieFind :: "('k, 'v) trie \<Rightarrow> 'k \<Rightarrow> nat option" where
  "trieFind t k =
     (case walk_branches t DA_POOL_ROOT (encodingFunction (type t) k) of
        Inl (s, p) \<Rightarrow> None
      | Inr (s0, p) \<Rightarrow>
          let s = trieGetTailIndex t s0 in
          if walk_tail t s 0 p then trieGetTrieEntry t s else None)"

definition trieDelete :: "('k, 'v) trie \<Rightarrow> 'k \<Rightarrow> (int \<times> ('k, 'v) trie) option" where
  "trieDelete t k =
     (case walk_branches t DA_POOL_ROOT (encodingFunction (type t) k) of
        Inl (s, p) \<Rightarrow> Some (TDICT_ERR, t)
      | Inr (s, p) \<Rightarrow>
          let tt = trieGetTailIndex t s in
          if walk_tail t tt 0 p then
            Option.bind (tailFreeCell t tt) (\<lambda>t1.
              Option.bind (daPrune (trieSetBase t1 s TRIE_INDEX_ERROR) DA_POOL_ROOT s) (\<lambda>t2.
                Some (TDICT_OK, t2)))
          else Some (TDICT_ERR, t))"

text \<open>
  \<^verbatim>\<open>trieReplace\<close>: the entry pointer is a slot of \<open>tails\<close>. The new value is stored,
  then the destructor, when there is one, is called on the old value; the call is
  logged with the pool that the store has left.
\<close>

definition trieReplace :: "('k, 'v) trie \<Rightarrow> nat option \<Rightarrow> 'v option \<Rightarrow> int \<times> ('k, 'v) trie" where
  "trieReplace t te v =
     (case te of
        None \<Rightarrow> (TDICT_ERR, t)
      | Some n \<Rightarrow>
          let oldval = val (tails t ! n);
              t1 = t\<lparr>tails := (tails t)[n := (tails t ! n)\<lparr>val := v\<rparr>]\<rparr>
          in (TDICT_OK, callValDestructor t1 oldval))"

subsection \<open>Iterators and prefix search\<close>

text \<open>
  An iterator's \<open>result\<close> is NULL or the list of the addresses \<^verbatim>\<open>&t->base[s]\<close> it
  collected, each given by its cell \<open>s\<close>; \<open>cur\<close> is a position in that list.
\<close>

record trieIterator =
  it_index :: int
  safe :: int
  cur :: "nat option"
  result :: "int list option"

text \<open>
  The loop of \<^verbatim>\<open>getTrieIterator\<close> over the explicit stack (the head of the list is
  the top). Not returning is \<open>None\<close>.
\<close>

partial_function (option) getTrieIterator_loop ::
    "('k, 'v) trie \<Rightarrow> int list \<Rightarrow> int list \<Rightarrow> int list option" where
  "getTrieIterator_loop t nodeStack res =
     (case nodeStack of
        [] \<Rightarrow> Some res
      | s # rest \<Rightarrow>
          let b = trieGetBase t s in
          if b < 0 then getTrieIterator_loop t rest (res @ [s])
          else getTrieIterator_loop t
                 (fold (\<lambda>c st. (b + uint c) # st) (rev (daFillSymbols t s)) rest) res)"

declare getTrieIterator_loop.simps [code]

definition getTrieIterator :: "('k, 'v) trie \<Rightarrow> int \<Rightarrow> trieIterator option" where
  "getTrieIterator t state =
     Option.bind (getTrieIterator_loop t [state] []) (\<lambda>res.
       Some \<lparr>it_index = - 1, safe = 0, cur = None, result = Some res\<rparr>)"

text \<open>
  \<^verbatim>\<open>triePrefixSearch\<close> casts the key to a C string for \<^verbatim>\<open>strchr\<close>, so its tries have
  byte strings as keys. The two loops either start the enumeration at the current state
  (\<open>Enumerate\<close>), or return the empty iterator (\<open>NoMatch\<close>), or end (\<open>Proceed\<close>). The
  second loop calls \<^verbatim>\<open>_trieWalkTail\<close> with the state \<open>s\<close>, as the source does; the tail
  index \<open>ss\<close> is computed and not used.
\<close>

datatype prefix_walk = Enumerate int | NoMatch | Proceed int "TrieChar list"

fun prefix_branches :: "('k, 'v) trie \<Rightarrow> bool \<Rightarrow> int \<Rightarrow> TrieChar list \<Rightarrow> prefix_walk" where
  "prefix_branches t hasWildcard s [] =
     (if trieBranchEnd t s then Proceed s []
      else if hasWildcard then Enumerate s
      else case trieWalk t s 0 of None \<Rightarrow> NoMatch | Some s1 \<Rightarrow> Proceed s1 [])"
| "prefix_branches t hasWildcard s (c # p) =
     (if trieBranchEnd t s then Proceed s (c # p)
      else if 0 = c \<and> hasWildcard then Enumerate s
      else case trieWalk t s c of
             None \<Rightarrow> NoMatch
           | Some s1 \<Rightarrow> if 0 = c then Proceed s1 (c # p) else prefix_branches t hasWildcard s1 p)"

fun prefix_tail :: "('k, 'v) trie \<Rightarrow> bool \<Rightarrow> int \<Rightarrow> short \<Rightarrow> TrieChar list \<Rightarrow> bool" where
  "prefix_tail t hasWildcard s suffix_idx [] =
     (if hasWildcard then True
      else case trieWalkTail t s suffix_idx 0 of None \<Rightarrow> False | Some i \<Rightarrow> True)"
| "prefix_tail t hasWildcard s suffix_idx (c # p) =
     (if 0 = c \<and> hasWildcard then True
      else case trieWalkTail t s suffix_idx c of
             None \<Rightarrow> False
           | Some i \<Rightarrow> if 0 = c then True else prefix_tail t hasWildcard s i p)"

definition empty_iterator :: trieIterator where
  "empty_iterator = \<lparr>it_index = - 1, safe = 0, cur = None, result = None\<rparr>"

definition prefix_search_from ::
    "('k, 'v) trie \<Rightarrow> bool \<Rightarrow> TrieChar list \<Rightarrow> trieIterator option" where
  "prefix_search_from t hasWildcard internalKey =
     (case prefix_branches t hasWildcard DA_POOL_ROOT internalKey of
        Enumerate s \<Rightarrow> getTrieIterator t s
      | NoMatch \<Rightarrow> Some empty_iterator
      | Proceed s p \<Rightarrow>
          let ss = trieGetTailIndex t s in
          if prefix_tail t hasWildcard s 0 p then getTrieIterator t s
          else Some empty_iterator)"

definition triePrefixSearch ::
    "(TrieChar list, 'v) trie \<Rightarrow> TrieChar list \<Rightarrow> trieIterator option" where
  "triePrefixSearch t k =
     (let hasWildcard = (0x2A \<in> set (takeWhile (\<lambda>c. c \<noteq> 0) k))
      in prefix_search_from t hasWildcard (encodingFunction (type t) k))"

section \<open>Notions of the specification and example descriptors\<close>

text \<open>
  The free chain of the tail pool as \<^verbatim>\<open>_tailAllocCell\<close> and \<^verbatim>\<open>_tailFreeCell\<close> read it:
  it starts at \<open>first_free\<close>, follows \<open>next_free\<close> and ends at 0. A chain cannot be
  longer than the pool unless it is cyclic, so the pool size bounds the walk.
\<close>

fun free_chain_from :: "('k, 'v) trieEntry list \<Rightarrow> nat \<Rightarrow> nat \<Rightarrow> nat list" where
  "free_chain_from ts 0 i = []"
| "free_chain_from ts (Suc fuel) i =
     (if i = 0 then [] else i # free_chain_from ts fuel (nat (next_free (ts ! i))))"

definition tail_free_chain :: "('k, 'v) trie \<Rightarrow> nat list" where
  "tail_free_chain t = free_chain_from (tails t) (tailsize t) (first_free t)"

text \<open>
  The specification's sizing rule, in its words: the smallest power of two strictly
  greater than the requested index.
\<close>

function power_of_two_above :: "nat \<Rightarrow> nat \<Rightarrow> nat" where
  "power_of_two_above p n = (if n < p \<or> p = 0 then p else power_of_two_above (2 * p) n)"
  by pat_completeness auto
termination
  by (relation "measure (\<lambda>(p, n). Suc n - p)") auto

declare power_of_two_above.simps [simp del]

definition spec_next_power_of_two :: "int \<Rightarrow> int" where
  "spec_next_power_of_two n = int (power_of_two_above 1 (nat n))"

text \<open>
  Descriptors for byte-string keys. With the single alphabet range \<open>[1, 255]\<close> the
  alphabet map sends each byte to itself, so the encoding is the identity.
  \<open>plain_type\<close> has no callbacks; \<open>dup_type\<close> supplies all of them, with duplicators
  that return their argument; \<open>wild_type\<close> ends the internal key of a pattern at its
  first \<^verbatim>\<open>*\<close>.
\<close>

definition plain_type :: "(TrieChar list, nat) trieType" where
  "plain_type = \<lparr>encodingFunction = (\<lambda>k. k), keyDup = None, valDup = None,
                  keyDestructor = False, valDestructor = False\<rparr>"

definition dup_type :: "(TrieChar list, nat) trieType" where
  "dup_type = \<lparr>encodingFunction = (\<lambda>k. k), keyDup = Some (\<lambda>p. p), valDup = Some (\<lambda>p. p),
                keyDestructor = True, valDestructor = True\<rparr>"

definition dtor_type :: "(TrieChar list, nat) trieType" where
  "dtor_type = \<lparr>encodingFunction = (\<lambda>k. k), keyDup = None, valDup = None,
                 keyDestructor = True, valDestructor = True\<rparr>"

definition wild_type :: "(TrieChar list, nat) trieType" where
  "wild_type = \<lparr>encodingFunction = takeWhile (\<lambda>c. c \<noteq> 0x2A), keyDup = None, valDup = None,
                 keyDestructor = False, valDestructor = False\<rparr>"

text \<open>Running a list of additions, then a list of deletions, collecting the results.\<close>

fun trieAdd_all ::
    "('k, 'v) trie \<Rightarrow> ('k \<times> 'v option) list \<Rightarrow> (int list \<times> ('k, 'v) trie) option" where
  "trieAdd_all t [] = Some ([], t)"
| "trieAdd_all t ((k, v) # kvs) =
     (case trieAdd t k v of
        None \<Rightarrow> None
      | Some (r, t1) \<Rightarrow> map_option (\<lambda>(rs, t2). (r # rs, t2)) (trieAdd_all t1 kvs))"

fun trieDelete_all :: "('k, 'v) trie \<Rightarrow> 'k list \<Rightarrow> (int list \<times> ('k, 'v) trie) option" where
  "trieDelete_all t [] = Some ([], t)"
| "trieDelete_all t (k # ks) =
     (case trieDelete t k of
        None \<Rightarrow> None
      | Some (r, t1) \<Rightarrow> map_option (\<lambda>(rs, t2). (r # rs, t2)) (trieDelete_all t1 ks))"

text \<open>The value stored for a key: the \<open>val\<close> field of the entry \<^verbatim>\<open>trieFind\<close> returns.\<close>

definition value_of_key :: "('k, 'v) trie \<Rightarrow> 'k \<Rightarrow> 'v option" where
  "value_of_key t k = (case trieFind t k of None \<Rightarrow> None | Some n \<Rightarrow> val (tails t ! n))"

section \<open>Invariants of the double array\<close>

text \<open>
  The arrays have \<open>dasize\<close> cells, the three header cells among them.
\<close>

definition da_sizes :: "('k, 'v) trie \<Rightarrow> bool" where
  "da_sizes t = (length (base t) = dasize t \<and> length (check t) = dasize t \<and> 3 \<le> dasize t)"

text \<open>
  A free cell is a cell of the pool with a negative \<open>check\<close>; a cell of the pool in use
  has a \<open>check\<close> that is not negative. The members of the free ring are the anchor,
  cell 1, and the free cells.
\<close>

definition isfree :: "('k, 'v) trie \<Rightarrow> int \<Rightarrow> bool" where
  "isfree t i = (DA_POOL_BEGIN \<le> i \<and> i < int (dasize t) \<and> trieGetCheck t i < 0)"

definition in_use :: "('k, 'v) trie \<Rightarrow> int \<Rightarrow> bool" where
  "in_use t s = (DA_POOL_BEGIN \<le> s \<and> s < int (dasize t) \<and> trieGetCheck t s \<ge> 0)"

definition ring_member :: "('k, 'v) trie \<Rightarrow> int \<Rightarrow> bool" where
  "ring_member t i = (i = DA_POOL_FREE \<or> isfree t i)"

text \<open>
  Two members are adjacent in the ring when the second is the next member above the
  first, or when the first is the highest member and the second is the anchor.
\<close>

definition ring_adjacent :: "('k, 'v) trie \<Rightarrow> int \<Rightarrow> int \<Rightarrow> bool" where
  "ring_adjacent t a b =
     (ring_member t a \<and> ring_member t b \<and>
      ((a < b \<and> (\<forall>j. a < j \<and> j < b \<longrightarrow> \<not> ring_member t j)) \<or>
       (b = DA_POOL_FREE \<and> (\<forall>j. a < j \<longrightarrow> \<not> ring_member t j))))"

text \<open>
  The free ring: cells 0 and 2 are not free, and for adjacent members \<open>a\<close>, \<open>b\<close> the
  \<open>check\<close> of \<open>a\<close> is the negated \<open>b\<close> and the \<open>base\<close> of \<open>b\<close> the negated \<open>a\<close>: the
  ring is doubly linked, in ascending order of the cells, through the anchor.
\<close>

definition free_ring :: "('k, 'v) trie \<Rightarrow> bool" where
  "free_ring t =
     (trieGetCheck t 0 \<ge> 0 \<and> trieGetCheck t DA_POOL_ROOT = 0 \<and>
      (\<forall>a b. ring_adjacent t a b \<longrightarrow> trieGetCheck t a = - b \<and> trieGetBase t b = - a))"

text \<open>
  A cell in use that branches has a \<open>base\<close> of at least \<^verbatim>\<open>DA_POOL_BEGIN\<close>, so that its
  children lie in the pool; a negative \<open>base\<close> is a tail index or the stale link of a
  cell just claimed. The root is cell 2.
\<close>

definition base_ok :: "('k, 'v) trie \<Rightarrow> bool" where
  "base_ok t =
     (\<forall>s. s = DA_POOL_ROOT \<or> in_use t s \<longrightarrow>
          trieGetBase t s < 0 \<or> DA_POOL_BEGIN \<le> trieGetBase t s)"

text \<open>No cell in use is its own parent.\<close>

definition parent_ok :: "('k, 'v) trie \<Rightarrow> bool" where
  "parent_ok t = (\<forall>s. in_use t s \<longrightarrow> trieGetCheck t s \<noteq> s)"

definition da_inv :: "('k, 'v) trie \<Rightarrow> bool" where
  "da_inv t =
     (da_sizes t \<and> int (dasize t) \<le> TRIE_INDEX_MAX \<and> free_ring t \<and> base_ok t \<and> parent_ok t)"

text \<open>
  What an operation that only grows the arrays leaves in place: the old members of the
  ring stay members, the new cells join them, and the cells in use keep their contents
  (the header cell 0 holds the cell count in its \<open>check\<close>).
\<close>

definition same_rest :: "('k, 'v) trie \<Rightarrow> ('k, 'v) trie \<Rightarrow> bool" where
  "same_rest t t' =
     (tails t' = tails t \<and> tailsize t' = tailsize t \<and> first_free t' = first_free t \<and>
      used t' = used t \<and> type t' = type t \<and> calls t' = calls t)"

definition da_extends :: "('k, 'v) trie \<Rightarrow> ('k, 'v) trie \<Rightarrow> bool" where
  "da_extends t t' =
     (dasize t \<le> dasize t' \<and>
      (\<forall>i. ring_member t' i \<longleftrightarrow> ring_member t i \<or> (int (dasize t) \<le> i \<and> i < int (dasize t'))) \<and>
      (\<forall>i. \<not> ring_member t i \<and> in_da t i \<longrightarrow>
           (i \<noteq> 0 \<longrightarrow> trieGetCheck t' i = trieGetCheck t i) \<and> trieGetBase t' i = trieGetBase t i) \<and>
      same_rest t t')"

section \<open>Verification\<close>

subsection \<open>Sizing\<close>

lemma trieNextPower_loop_result:
  "0 < i \<Longrightarrow> \<exists>j. trieNextPower_loop i sz = Some (i * 2 ^ j) \<and> sz < i * 2 ^ j \<and> (j = 0 \<or> i * 2 ^ (j - 1) \<le> sz)"
proof (induction "nat (sz + 1 - i)" arbitrary: i rule: less_induct)
  case less
  show ?case
  proof (cases "i > sz")
    case True
    then have "trieNextPower_loop i sz = Some (i * 2 ^ 0)"
      by (subst trieNextPower_loop.simps) simp
    with True show ?thesis by (intro exI[of _ 0]) simp
  next
    case False
    with less.prems have lt: "nat (sz + 1 - i * 2) < nat (sz + 1 - i)" by simp
    from less.prems have pos: "0 < i * 2" by simp
    from less.hyps[OF lt pos] obtain j where
      j: "trieNextPower_loop (i * 2) sz = Some (i * 2 * 2 ^ j)" "sz < i * 2 * 2 ^ j"
         "j = 0 \<or> i * 2 * 2 ^ (j - 1) \<le> sz" by blast
    from False have "trieNextPower_loop i sz = trieNextPower_loop (i * 2) sz"
      by (subst trieNextPower_loop.simps) simp
    with j False show ?thesis
      by (intro exI[of _ "Suc j"]) (cases j; auto)
  qed
qed

lemma trieNextPower_small:
  assumes "sz < TRIE_INDEX_HALFMAX"
  shows "\<exists>k. trieNextPower sz = Some (DA_POOL_BEGIN * 2 ^ k) \<and> sz < DA_POOL_BEGIN * 2 ^ k \<and>
             (k = 0 \<or> DA_POOL_BEGIN * 2 ^ (k - 1) \<le> sz)"
  using assms trieNextPower_loop_result[of DA_POOL_BEGIN sz]
  by (simp add: trieNextPower_def DA_POOL_BEGIN_def)

lemma trieNextPower_large: "TRIE_INDEX_HALFMAX \<le> sz \<Longrightarrow> trieNextPower sz = Some TRIE_INDEX_MAX"
  by (simp add: trieNextPower_def)

lemma dasize_trieSetBase [simp]: "dasize (trieSetBase t i v) = dasize t"
  by (simp add: trieSetBase_def)

lemma dasize_trieSetCheck [simp]: "dasize (trieSetCheck t i v) = dasize t"
  by (simp add: trieSetCheck_def)

lemma dasize_expand_fold [simp]: "dasize (fold expand_step xs t) = dasize t"
  by (induction xs arbitrary: t) (simp_all add: expand_step_def)

lemma trieExpand_grows:
  assumes "0 < sz" "sz < TRIE_INDEX_MAX" "int (dasize t) < sz" "trieNextPower sz = Some r" "0 < r"
  shows "\<exists>t'. trieExpand t sz = Some (TDICT_OK, t') \<and> int (dasize t') = r"
  using assms by (simp add: trieExpand_def da_realloc_def Let_def)

lemma tailsize_set_next_free [simp]: "tailsize (set_next_free t i v) = tailsize t"
  by (simp add: set_next_free_def)

lemma tailsize_alloc_fold [simp]:
  "tailsize (fold (\<lambda>i t. set_next_free t i (g i)) xs t) = tailsize t"
  by (induction xs arbitrary: t) simp_all

lemma tailAllocCell_grows:
  assumes "first_free t = 0" "trieNextPower (int (tailsize t)) = Some r" "0 < r" "r \<noteq> int (tailsize t)"
  shows "\<exists>b t'. tailAllocCell t = Some (b, t') \<and> int (tailsize t') = r"
  using assms by (simp add: tailAllocCell_def Let_def)


lemma power_of_two_above_result:
  "0 < p \<Longrightarrow> \<exists>j. power_of_two_above p n = p * 2 ^ j \<and> n < p * 2 ^ j \<and> (j = 0 \<or> p * 2 ^ (j - 1) \<le> n)"
proof (induction p n rule: power_of_two_above.induct)
  case (1 p n)
  show ?case
  proof (cases "n < p")
    case True
    then have "power_of_two_above p n = p * 2 ^ 0"
      by (subst power_of_two_above.simps) simp
    with True show ?thesis by (intro exI[of _ 0]) simp
  next
    case False
    with "1.prems" have c: "\<not> (n < p \<or> p = 0)" and pos: "0 < 2 * p" by simp_all
    from "1.IH"[OF c pos] obtain j where j: "power_of_two_above (2 * p) n = 2 * p * 2 ^ j"
      "n < 2 * p * 2 ^ j" "j = 0 \<or> 2 * p * 2 ^ (j - 1) \<le> n" by blast
    from c have e: "power_of_two_above p n = power_of_two_above (2 * p) n"
      by (subst power_of_two_above.simps) simp
    show ?thesis
    proof (intro exI[of _ "Suc j"] conjI)
      show "power_of_two_above p n = p * 2 ^ Suc j" using e j(1) by simp
      show "n < p * 2 ^ Suc j" using j(2) by simp
      show "Suc j = 0 \<or> p * 2 ^ (Suc j - 1) \<le> n"
        using j(3) False by (cases j) simp_all
    qed
  qed
qed


text \<open>
  The function of the specification's sizing rule does return the smallest power of two
  strictly greater than its argument.
\<close>

lemma spec_next_power_of_two_least:
  "\<exists>k. spec_next_power_of_two n = 2 ^ k \<and> n < 2 ^ k \<and> (k = 0 \<or> 2 ^ (k - 1) \<le> n)"
proof -
  from power_of_two_above_result[of 1 "nat n"] obtain j where
    j: "power_of_two_above 1 (nat n) = 2 ^ j" "nat n < 2 ^ j" "j = 0 \<or> 2 ^ (j - 1) \<le> nat n"
    by auto
  have "n < 2 ^ j" using j(2) by (simp add: nat_less_iff)
  moreover have "j = 0 \<or> (2::int) ^ (j - 1) \<le> n"
    using j(3) by (auto simp: le_nat_iff)
  ultimately show ?thesis using j(1) by (auto simp: spec_next_power_of_two_def)
qed

text \<open>
  C7, as stated, fails. Asked for index 4, \<^verbatim>\<open>trieExpand\<close> makes the double array 6
  cells, which is no power of two (the smallest power of two above 4 is 8); the first
  allocation of the tail pool, asked for index 0, makes it 3 slots, not 1.
\<close>

theorem expansion_size_counterexample:
  "map_option (\<lambda>(r, t). int (dasize t)) (trieExpand (trieCreate plain_type) 4) = Some 6 \<and>
   spec_next_power_of_two 4 = 8 \<and>
   map_option (\<lambda>(r, t). int (tailsize t)) (tailAllocCell (trieCreate plain_type)) = Some 3 \<and>
   spec_next_power_of_two 0 = 1"
  by code_simp


text \<open>
  C7, amended. \<^verbatim>\<open>_trieNextPower\<close> doubles from \<^verbatim>\<open>DA_POOL_BEGIN = 3\<close>: for a requested
  index below \<^verbatim>\<open>TRIE_INDEX_HALFMAX\<close>, an expansion of the double array or of the tail
  pool makes the new size the smallest number of the form \<open>3 * 2 ^ k\<close> strictly greater
  than the requested index; from \<^verbatim>\<open>TRIE_INDEX_HALFMAX\<close> on the size is
  \<^verbatim>\<open>TRIE_INDEX_MAX\<close>.
\<close>

theorem expansion_size:
  assumes "0 < sz" "sz < TRIE_INDEX_HALFMAX" "int (dasize t) < sz"
    and "first_free u = 0" "int (tailsize u) < TRIE_INDEX_HALFMAX"
  shows "\<exists>k j t' b u'.
           trieNextPower sz = Some (DA_POOL_BEGIN * 2 ^ k) \<and>
           sz < DA_POOL_BEGIN * 2 ^ k \<and> (k = 0 \<or> DA_POOL_BEGIN * 2 ^ (k - 1) \<le> sz) \<and>
           trieExpand t sz = Some (TDICT_OK, t') \<and> int (dasize t') = DA_POOL_BEGIN * 2 ^ k \<and>
           tailAllocCell u = Some (b, u') \<and> int (tailsize u') = DA_POOL_BEGIN * 2 ^ j \<and>
           int (tailsize u) < DA_POOL_BEGIN * 2 ^ j \<and>
           (j = 0 \<or> DA_POOL_BEGIN * 2 ^ (j - 1) \<le> int (tailsize u)) \<and>
           trieNextPower (max sz' TRIE_INDEX_HALFMAX) = Some TRIE_INDEX_MAX"
proof -
  from trieNextPower_small[OF assms(2)] obtain k where
    k: "trieNextPower sz = Some (DA_POOL_BEGIN * 2 ^ k)" "sz < DA_POOL_BEGIN * 2 ^ k"
       "k = 0 \<or> DA_POOL_BEGIN * 2 ^ (k - 1) \<le> sz" by blast
  from trieNextPower_small[OF assms(5)] obtain j where
    j: "trieNextPower (int (tailsize u)) = Some (DA_POOL_BEGIN * 2 ^ j)"
       "int (tailsize u) < DA_POOL_BEGIN * 2 ^ j"
       "j = 0 \<or> DA_POOL_BEGIN * 2 ^ (j - 1) \<le> int (tailsize u)" by blast
  have pk: "0 < DA_POOL_BEGIN * 2 ^ k" and pj: "0 < DA_POOL_BEGIN * 2 ^ j"
    by (simp_all add: DA_POOL_BEGIN_def)
  have "sz < TRIE_INDEX_MAX" using assms(2) by (simp add: TRIE_INDEX_HALFMAX_def TRIE_INDEX_MAX_def)
  from trieExpand_grows[OF assms(1) this assms(3) k(1) pk] obtain t' where
    t': "trieExpand t sz = Some (TDICT_OK, t')" "int (dasize t') = DA_POOL_BEGIN * 2 ^ k" by blast
  from j(2) have "DA_POOL_BEGIN * 2 ^ j \<noteq> int (tailsize u)" by simp
  from tailAllocCell_grows[OF assms(4) j(1) pj this] obtain b u' where
    u': "tailAllocCell u = Some (b, u')" "int (tailsize u') = DA_POOL_BEGIN * 2 ^ j" by blast
  have m: "trieNextPower (max sz' TRIE_INDEX_HALFMAX) = Some TRIE_INDEX_MAX"
    by (rule trieNextPower_large) simp
  show ?thesis
    apply (rule exI[of _ k], rule exI[of _ j], rule exI[of _ t'], rule exI[of _ b], rule exI[of _ u'])
    apply (intro conjI k j t' u' m)
    done
qed


theorem expansion_size_witness:
  "(0::int) < 4 \<and> 4 < TRIE_INDEX_HALFMAX \<and> int (dasize (trieCreate plain_type)) < 4 \<and>
   first_free (trieCreate plain_type) = 0 \<and> int (tailsize (trieCreate plain_type)) < TRIE_INDEX_HALFMAX \<and>
   (\<exists>k j t' b u'.
      trieNextPower 4 = Some (DA_POOL_BEGIN * 2 ^ k) \<and>
      4 < DA_POOL_BEGIN * 2 ^ k \<and> (k = 0 \<or> DA_POOL_BEGIN * 2 ^ (k - 1) \<le> 4) \<and>
      trieExpand (trieCreate plain_type) 4 = Some (TDICT_OK, t') \<and>
      int (dasize t') = DA_POOL_BEGIN * 2 ^ k \<and>
      tailAllocCell (trieCreate plain_type) = Some (b, u') \<and>
      int (tailsize u') = DA_POOL_BEGIN * 2 ^ j \<and>
      int (tailsize (trieCreate plain_type)) < DA_POOL_BEGIN * 2 ^ j \<and>
      (j = 0 \<or> DA_POOL_BEGIN * 2 ^ (j - 1) \<le> int (tailsize (trieCreate plain_type))) \<and>
      trieNextPower (max 0 TRIE_INDEX_HALFMAX) = Some TRIE_INDEX_MAX)"
proof -
  have h: "(0::int) < 4" "4 < TRIE_INDEX_HALFMAX" "int (dasize (trieCreate plain_type)) < 4"
    "first_free (trieCreate plain_type) = 0" "int (tailsize (trieCreate plain_type)) < TRIE_INDEX_HALFMAX"
    by (simp_all add: TRIE_INDEX_HALFMAX_def trieCreate_def trieSetup_def trieReset_def DA_POOL_BEGIN_def)
  show ?thesis
    apply (intro conjI)
         apply (rule h)+
    apply (rule expansion_size[OF h, of 0])
    done
qed

subsection \<open>Replacing a value\<close>

text \<open>
  The order of the store and the call shows in the trace. A destructor called in the
  state \<open>t\<close>, before the store, is logged with the pool of \<open>t\<close>; when the new value is not
  the old one, this is not the trace that \<^verbatim>\<open>trieReplace\<close> leaves.
\<close>

lemma callValDestructor_before_store:
  assumes "valDestructor (type t)" and "n < length (tails t)" and "v \<noteq> val (tails t ! n)"
  shows "calls (callValDestructor t (val (tails t ! n))) \<noteq> calls (snd (trieReplace t (Some n) v))"
proof -
  let ?pool = "(tails t)[n := (tails t ! n)\<lparr>val := v\<rparr>]"
  have "val (?pool ! n) = v"
    using assms(2) by simp
  with assms(3) have "?pool \<noteq> tails t"
    by metis
  then show ?thesis
    using assms(1) by (simp add: trieReplace_def callValDestructor_def Let_def)
qed

text \<open>
  C9. \<^verbatim>\<open>trieReplace\<close> returns \<^verbatim>\<open>TDICT_ERR\<close> exactly for the NULL entry. For an entry of
  the pool it returns \<^verbatim>\<open>TDICT_OK\<close> and afterwards the entry holds the new value. When the
  descriptor has a value destructor, the call trace grows by exactly one call of it:
  the call is handed the old value, and the pool that the destructor finds already
  holds the new value in the entry and is the pool of the final state, so the store
  comes first and the call second; a call made before the store would have found the
  pool of \<open>t\<close>, which differs as soon as the new value is not the old one. Without a
  value destructor the trace does not change.
\<close>

theorem trieReplace_spec:
  assumes "n < length (tails t)"
  shows "(\<forall>te. fst (trieReplace t te v) = TDICT_ERR \<longleftrightarrow> te = None) \<and>
         fst (trieReplace t (Some n) v) = TDICT_OK \<and>
         val (tails (snd (trieReplace t (Some n) v)) ! n) = v \<and>
         (\<exists>pool. calls (snd (trieReplace t (Some n) v)) =
                    calls t @ (if valDestructor (type t)
                               then [ValDestructorCall (val (tails t ! n)) pool] else []) \<and>
                  val (pool ! n) = v \<and>
                  pool = tails (snd (trieReplace t (Some n) v)) \<and>
                  pool = (tails t)[n := (tails t ! n)\<lparr>val := v\<rparr>] \<and>
                  (v \<noteq> val (tails t ! n) \<longrightarrow> pool \<noteq> tails t))"
proof -
  let ?pool = "(tails t)[n := (tails t ! n)\<lparr>val := v\<rparr>]"
  have e: "(\<forall>te. fst (trieReplace t te v) = TDICT_ERR \<longleftrightarrow> te = None)"
    by (auto simp: trieReplace_def TDICT_ERR_def TDICT_OK_def Let_def split: option.splits)
  have r: "fst (trieReplace t (Some n) v) = TDICT_OK"
    by (simp add: trieReplace_def Let_def)
  have p: "tails (snd (trieReplace t (Some n) v)) = ?pool"
    by (simp add: trieReplace_def callValDestructor_def Let_def)
  have c: "calls (snd (trieReplace t (Some n) v)) =
             calls t @ (if valDestructor (type t)
                        then [ValDestructorCall (val (tails t ! n)) ?pool] else [])"
    by (simp add: trieReplace_def callValDestructor_def Let_def)
  have v: "val (?pool ! n) = v"
    using assms by simp
  have d: "v \<noteq> val (tails t ! n) \<longrightarrow> ?pool \<noteq> tails t"
  proof
    assume "v \<noteq> val (tails t ! n)"
    with v show "?pool \<noteq> tails t" by metis
  qed
  from e r p c v d show ?thesis by (metis (no_types, lifting))
qed

theorem trieReplace_spec_witness:
  "\<exists>t. trieAdd (trieCreate dtor_type) [1] (Some 5) = Some (TDICT_OK, t) \<and>
       0 < length (tails t) \<and> calls t = [] \<and> val (tails t ! 0) = Some 5 \<and>
       fst (trieReplace t None (Some 7)) = TDICT_ERR \<and>
       fst (trieReplace t (Some 0) (Some 7)) = TDICT_OK \<and>
       val (tails (snd (trieReplace t (Some 0) (Some 7))) ! 0) = Some 7 \<and>
       (\<exists>pool. calls (snd (trieReplace t (Some 0) (Some 7))) = [ValDestructorCall (Some 5) pool] \<and>
                val (pool ! 0) = Some 7 \<and> pool \<noteq> tails t)"
proof -
  define X where "X = trieAdd (trieCreate dtor_type) [1] (Some 5)"
  have "case trieAdd (trieCreate dtor_type) [1] (Some 5) of
          None \<Rightarrow> False
        | Some (r, t) \<Rightarrow> r = TDICT_OK \<and> 0 < length (tails t) \<and> val (tails t ! 0) = Some 5 \<and>
                          valDestructor (type t) \<and> calls t = []"
    by code_simp
  then have "case X of None \<Rightarrow> False
        | Some (r, t) \<Rightarrow> r = TDICT_OK \<and> 0 < length (tails t) \<and> val (tails t ! 0) = Some 5 \<and>
                          valDestructor (type t) \<and> calls t = []"
    by (simp only: X_def)
  then obtain t where t: "X = Some (TDICT_OK, t)"
    and l: "0 < length (tails t)" and v: "val (tails t ! 0) = Some 5"
    and d: "valDestructor (type t)" and c: "calls t = []"
    by (cases X) auto
  note S = trieReplace_spec[OF l, of "Some 7"]
  have r1: "fst (trieReplace t None (Some 7)) = TDICT_ERR"
    using S[THEN conjunct1] by blast
  have r2: "fst (trieReplace t (Some 0) (Some 7)) = TDICT_OK"
    by (rule S[THEN conjunct2, THEN conjunct1])
  have r3: "val (tails (snd (trieReplace t (Some 0) (Some 7))) ! 0) = Some 7"
    by (rule S[THEN conjunct2, THEN conjunct2, THEN conjunct1])
  from S[THEN conjunct2, THEN conjunct2, THEN conjunct2] obtain pool where
    p: "calls (snd (trieReplace t (Some 0) (Some 7))) =
          calls t @ (if valDestructor (type t)
                     then [ValDestructorCall (val (tails t ! 0)) pool] else [])"
       "val (pool ! 0) = Some 7"
       "Some 7 \<noteq> val (tails t ! 0) \<longrightarrow> pool \<noteq> tails t"
    by blast
  have r4: "calls (snd (trieReplace t (Some 0) (Some 7))) = [ValDestructorCall (Some 5) pool]"
    using p(1) v d c by simp
  have r5: "pool \<noteq> tails t"
    using p(3) v by simp
  from t l c v r1 r2 r3 r4 p(2) r5 show ?thesis unfolding X_def by blast
qed

subsection \<open>Adding a key that is present\<close>

lemma trieFind_SomeD:
  assumes "trieFind t k = Some n"
  obtains s p where "walk_branches t DA_POOL_ROOT (encodingFunction (type t) k) = Inr (s, p)"
    "walk_tail t (trieGetTailIndex t s) 0 p" "trieGetTrieEntry t (trieGetTailIndex t s) = Some n"
  using assms unfolding trieFind_def
  by (auto split: sum.splits if_splits simp: Let_def)

lemma walk_branches_empty:
  "dasize t = 0 \<Longrightarrow> walk_branches t DA_POOL_ROOT p = Inl (DA_POOL_ROOT, p)"
  by (cases p) (auto simp: trieBranchEnd_def in_da_def trieWalk_def trieGetBase_def trieGetCheck_def
      TRIE_INDEX_ERROR_def DA_POOL_ROOT_def Let_def)

lemma trieGetTrieEntry_SomeD:
  assumes "trieGetTrieEntry t i = Some n"
  shows "2 \<le> i" "i = int n + 2" "n < tailsize t" "in_tails t i"
  using assms
  by (auto simp: trieGetTrieEntry_def in_tails_def TAIL_START_BLOCKNO_def split: if_splits)

lemma trieAddKey_present:
  assumes "trieFind t k = Some n" and "base t = [] \<Longrightarrow> dasize t = 0"
  shows "trieAddKey t k = Some (int n + 2, t)"
proof -
  from assms(1) obtain s p where
    w: "walk_branches t DA_POOL_ROOT (encodingFunction (type t) k) = Inr (s, p)"
    and wt: "walk_tail t (trieGetTailIndex t s) 0 p"
    and e: "trieGetTrieEntry t (trieGetTailIndex t s) = Some n"
    by (rule trieFind_SomeD)
  have ne: "base t \<noteq> []"
  proof
    assume "base t = []"
    with assms(2) have "dasize t = 0" by simp
    from walk_branches_empty[OF this] w show False by simp
  qed
  from e have "trieGetTailIndex t s = int n + 2" by (rule trieGetTrieEntry_SomeD)
  with ne w wt show ?thesis by (simp add: trieAddKey_def Let_def)
qed

lemma trieAdd_present:
  assumes "trieFind t k = Some n" and "base t = [] \<Longrightarrow> dasize t = 0"
  shows "trieAdd t k v =
    Some (TDICT_OK, trieSetTailVal (trieSetTailKey t (int n + 2) (Some k)) (int n + 2) v)"
  using trieAddKey_present[OF assms]
  by (simp add: trieAdd_def TRIE_INDEX_ERROR_def TDICT_ERR_def)

lemma val_nth_key_update:
  "val (xs[i := (xs ! i)\<lparr>key := k\<rparr>] ! n) = val (xs ! n)"
  by (cases "i < length xs") (auto simp: nth_list_update list_update_beyond)

lemma trieSetTailKey_simps:
  "tailsize (trieSetTailKey t i k) = tailsize t"
  "type (trieSetTailKey t i k) = type t"
  "length (tails (trieSetTailKey t i k)) = length (tails t)"
  "val (tails (trieSetTailKey t i k) ! n) = val (tails t ! n)"
  "calls (trieSetTailKey t i k) = calls t @
     (if in_tails t i then (case keyDup (type t) of None \<Rightarrow> []
        | Some d \<Rightarrow> [KeyDupCall (key (tails t ! nat (i - TAIL_START_BLOCKNO)))]) else [])"
  by (auto simp: trieSetTailKey_def Let_def val_nth_key_update split: option.splits)

lemma in_tails_SetTailKey: "in_tails (trieSetTailKey t i k) j = in_tails t j"
  by (simp add: in_tails_def trieSetTailKey_simps)

text \<open>
  C2, as stated, fails: a second \<^verbatim>\<open>trieAdd\<close> of a key that \<^verbatim>\<open>trieFind\<close> finds returns
  \<^verbatim>\<open>TDICT_OK\<close>.
\<close>

theorem trieAdd_duplicate_counterexample:
  "(case trieAdd (trieCreate plain_type) [1] (Some 5) of
      None \<Rightarrow> None
    | Some (r, t) \<Rightarrow> map_option (\<lambda>(r', t'). (trieFind t [1], r')) (trieAdd t [1] (Some 6)))
   = Some (Some 0, TDICT_OK) \<and> TDICT_OK \<noteq> TDICT_ERR"
  by code_simp

text \<open>
  C2, amended. For every trie and every key present in it (\<^verbatim>\<open>trieFind\<close> returns its
  entry), \<^verbatim>\<open>trieAdd\<close> returns \<^verbatim>\<open>TDICT_OK\<close>: \<^verbatim>\<open>_trieAddKey\<close> changes nothing and
  returns the index of the existing tail slot, which \<^verbatim>\<open>trieAdd\<close> hands to
  \<^verbatim>\<open>trieSetTailKey\<close> and \<^verbatim>\<open>trieSetTailVal\<close>. The premise on \<open>base\<close> says that a trie
  whose arrays are NULL has size 0.
\<close>

theorem trieAdd_duplicate_ok:
  assumes "trieFind t k = Some n" and "base t = [] \<Longrightarrow> dasize t = 0"
  shows "trieAdd t k v =
    Some (TDICT_OK, trieSetTailVal (trieSetTailKey t (int n + 2) (Some k)) (int n + 2) v)"
  using trieAdd_present[OF assms] .

theorem trieAdd_duplicate_ok_witness:
  "\<exists>t. trieAdd (trieCreate plain_type) [1] (Some 5) = Some (TDICT_OK, t) \<and>
       trieFind t [1] = Some 0 \<and> base t \<noteq> [] \<and>
       trieAdd t [1] (Some 6) =
         Some (TDICT_OK, trieSetTailVal (trieSetTailKey t (int 0 + 2) (Some [1])) (int 0 + 2) (Some 6))"
proof -
  define X where "X = trieAdd (trieCreate plain_type) [1] (Some 5)"
  have "case trieAdd (trieCreate plain_type) [1] (Some 5) of
          None \<Rightarrow> False
        | Some (r, t) \<Rightarrow> r = TDICT_OK \<and> trieFind t [1] = Some 0 \<and> base t \<noteq> []"
    by code_simp
  then have "case X of None \<Rightarrow> False
        | Some (r, t) \<Rightarrow> r = TDICT_OK \<and> trieFind t [1] = Some 0 \<and> base t \<noteq> []"
    by (simp only: X_def)
  then obtain t where t: "X = Some (TDICT_OK, t)"
    and f: "trieFind t [1] = Some 0" and b: "base t \<noteq> []"
    by (cases X) auto
  from b have b': "base t = [] \<Longrightarrow> dasize t = 0" by simp
  from trieAdd_duplicate_ok[OF f b', of "Some 6"] t f b show ?thesis
    unfolding X_def by blast
qed

text \<open>
  C10. When the key is present and the descriptor has no \<^verbatim>\<open>valDup\<close>, \<^verbatim>\<open>trieAdd\<close>
  succeeds, the \<open>val\<close> pointer of the existing slot is the new value afterwards, and the
  call trace grows by no destructor call: by nothing, or by the one \<^verbatim>\<open>keyDup\<close> call when
  the descriptor has a key duplicator. The premises say that a trie with NULL arrays
  has size 0 and that the pool has \<open>tailsize\<close> slots.
\<close>

theorem trieAdd_duplicate_overwrites:
  assumes "trieFind t k = Some n" and "base t = [] \<Longrightarrow> dasize t = 0"
    and "length (tails t) = tailsize t" and "valDup (type t) = None"
  shows "\<exists>t'. trieAdd t k v = Some (TDICT_OK, t') \<and> val (tails t' ! n) = v \<and>
           calls t' = calls t @ (case keyDup (type t) of None \<Rightarrow> []
                                 | Some d \<Rightarrow> [KeyDupCall (key (tails t ! n))])"
proof -
  from assms(1) obtain s p where e: "trieGetTrieEntry t (trieGetTailIndex t s) = Some n"
    by (rule trieFind_SomeD)
  from trieGetTrieEntry_SomeD[OF e] have n: "n < tailsize t" and it: "in_tails t (int n + 2)" by simp_all
  let ?t1 = "trieSetTailKey t (int n + 2) (Some k)"
  have "val (tails (trieSetTailVal ?t1 (int n + 2) v) ! n) = v"
    using n it assms(3,4)
    by (simp add: trieSetTailVal_def in_tails_SetTailKey trieSetTailKey_simps TAIL_START_BLOCKNO_def Let_def)
  moreover have "calls (trieSetTailVal ?t1 (int n + 2) v) =
      calls t @ (case keyDup (type t) of None \<Rightarrow> [] | Some d \<Rightarrow> [KeyDupCall (key (tails t ! n))])"
    using n it assms(3,4)
    by (simp add: trieSetTailVal_def in_tails_SetTailKey trieSetTailKey_simps TAIL_START_BLOCKNO_def Let_def
          split: option.splits)
  ultimately show ?thesis using trieAdd_present[OF assms(1,2)] by simp
qed

theorem trieAdd_duplicate_overwrites_witness:
  "\<exists>t t'. trieAdd (trieCreate plain_type) [1] (Some 5) = Some (TDICT_OK, t) \<and>
       trieFind t [1] = Some 0 \<and> base t \<noteq> [] \<and> length (tails t) = tailsize t \<and>
       valDup (type t) = None \<and> val (tails t ! 0) = Some 5 \<and>
       trieAdd t [1] (Some 6) = Some (TDICT_OK, t') \<and> val (tails t' ! 0) = Some 6 \<and>
       calls t' = calls t"
proof -
  define X where "X = trieAdd (trieCreate plain_type) [1] (Some 5)"
  have "case trieAdd (trieCreate plain_type) [1] (Some 5) of
          None \<Rightarrow> False
        | Some (r, t) \<Rightarrow> r = TDICT_OK \<and> trieFind t [1] = Some 0 \<and> base t \<noteq> [] \<and>
            length (tails t) = tailsize t \<and> valDup (type t) = None \<and> keyDup (type t) = None \<and>
            val (tails t ! 0) = Some 5"
    by code_simp
  then have "case X of None \<Rightarrow> False
        | Some (r, t) \<Rightarrow> r = TDICT_OK \<and> trieFind t [1] = Some 0 \<and> base t \<noteq> [] \<and>
            length (tails t) = tailsize t \<and> valDup (type t) = None \<and> keyDup (type t) = None \<and>
            val (tails t ! 0) = Some 5"
    by (simp only: X_def)
  then obtain t where t: "X = Some (TDICT_OK, t)"
    and f: "trieFind t [1] = Some 0" and b: "base t \<noteq> []"
    and l: "length (tails t) = tailsize t" and d: "valDup (type t) = None"
    and kd: "keyDup (type t) = None" and v: "val (tails t ! 0) = Some 5"
    by (cases X) auto
  from b have b': "base t = [] \<Longrightarrow> dasize t = 0" by simp
  from trieAdd_duplicate_overwrites[OF f b' l d, of "Some 6"] obtain t' where
    "trieAdd t [1] (Some 6) = Some (TDICT_OK, t')" "val (tails t' ! 0) = Some 6" "calls t' = calls t"
    using kd by auto
  with t f b l d v show ?thesis unfolding X_def by blast
qed

subsection \<open>Storing the key and the value\<close>

text \<open>
  C3. With a descriptor that supplies both duplicators, a successful \<^verbatim>\<open>trieAdd\<close> of key
  \<open>[1]\<close> and value 5 leaves the slot's \<open>key\<close> and \<open>val\<close> NULL, although the duplicators
  return the key and the value: the macros call the duplicator on the slot's old pointer
  and drop what it returns.
\<close>

theorem trieAdd_drops_duplicates:
  "case trieAdd (trieCreate dup_type) [1] (Some 5) of
     None \<Rightarrow> False
   | Some (r, t) \<Rightarrow>
       r = TDICT_OK \<and> trieFind t [1] = Some 0 \<and>
       map_option (\<lambda>dup. dup (Some [1])) (keyDup (type t)) = Some (Some [1]) \<and>
       map_option (\<lambda>dup. dup (Some 5)) (valDup (type t)) = Some (Some 5) \<and>
       key (tails t ! 0) = None \<and> val (tails t ! 0) = None \<and>
       calls t = [KeyDupCall None, ValDupCall None]"
  by code_simp

subsection \<open>Finding what was added\<close>

text \<open>
  C1. With a descriptor that supplies \<^verbatim>\<open>valDup\<close>, two keys of the alphabet are added
  and found again, and the entries found hold no value.
\<close>

theorem trieFind_after_trieAdd_with_valDup:
  "case trieAdd_all (trieCreate dup_type) [([1], Some 5), ([2], Some 6)] of
     None \<Rightarrow> False
   | Some (rs, t) \<Rightarrow>
       rs = [TDICT_OK, TDICT_OK] \<and>
       trieFind t [1] = Some 0 \<and> value_of_key t [1] = None \<and>
       trieFind t [2] = Some 1 \<and> value_of_key t [2] = None"
  by code_simp

subsection \<open>Deleting every key\<close>

text \<open>
  C8. Two keys are added and deleted in the order of their insertion. \<open>used\<close> is 0
  again, and the free chain holds slot 1 alone: freeing slot 0 sets \<open>first_free\<close> to 0,
  the end marker, which cuts off the chain there was, and slot 2 of the three slots is
  not reachable from \<open>first_free\<close> any more.
\<close>

theorem delete_all_free_chain:
  "case trieAdd_all (trieCreate plain_type) [([1], Some 5), ([2], Some 6)] of
     None \<Rightarrow> False
   | Some (rs, t) \<Rightarrow>
       (case trieDelete_all t [[1], [2]] of
          None \<Rightarrow> False
        | Some (rs', t') \<Rightarrow>
            rs = [TDICT_OK, TDICT_OK] \<and> rs' = [TDICT_OK, TDICT_OK] \<and>
            used t' = 0 \<and> tailsize t' = 3 \<and> first_free t' = 1 \<and>
            next_free (tails t' ! 1) = 0 \<and> tail_free_chain t' = [1])"
  by code_simp

subsection \<open>Prefix search\<close>

text \<open>
  C5. The trie holds the one key \<open>[3, 1, 20]\<close>. A pattern with a wildcard whose internal
  key starts with \<open>[3, 1]\<close> gets the empty iterator (its \<open>result\<close> is NULL), whatever
  follows: the walk leaves the branches at state 6 after the first symbol, and the tail
  loop looks for the suffix at index 6, the state, where the tail index 2 is meant.
\<close>

theorem prefix_search_misses_key:
  "case trieAdd (trieCreate wild_type) [3, 1, 20] (Some 1) of
     None \<Rightarrow> False
   | Some (r, t) \<Rightarrow>
       r = TDICT_OK \<and> trieFind t [3, 1, 20] = Some 0 \<and>
       triePrefixSearch t [3, 1, 0x2A] = Some empty_iterator \<and>
       prefix_search_from t True (3 # 1 # rest) = Some empty_iterator"
proof -
  define X where "X = trieAdd (trieCreate wild_type) [3, 1, 20] (Some 1)"
  have "case trieAdd (trieCreate wild_type) [3, 1, 20] (Some 1) of
          None \<Rightarrow> False
        | Some (r, t) \<Rightarrow> r = TDICT_OK \<and> trieFind t [3, 1, 20] = Some 0 \<and>
            triePrefixSearch t [3, 1, 0x2A] = Some empty_iterator \<and>
            \<not> trieBranchEnd t DA_POOL_ROOT \<and> trieWalk t DA_POOL_ROOT 3 = Some 6 \<and>
            trieBranchEnd t 6 \<and> trieGetTailSuffix t 6 = None"
    by code_simp
  then have "case X of
          None \<Rightarrow> False
        | Some (r, t) \<Rightarrow> r = TDICT_OK \<and> trieFind t [3, 1, 20] = Some 0 \<and>
            triePrefixSearch t [3, 1, 0x2A] = Some empty_iterator \<and>
            \<not> trieBranchEnd t DA_POOL_ROOT \<and> trieWalk t DA_POOL_ROOT 3 = Some 6 \<and>
            trieBranchEnd t 6 \<and> trieGetTailSuffix t 6 = None"
    by (simp only: X_def)
  then obtain t where t: "X = Some (TDICT_OK, t)" and f: "trieFind t [3, 1, 20] = Some 0"
    and p: "triePrefixSearch t [3, 1, 0x2A] = Some empty_iterator"
    and w: "\<not> trieBranchEnd t DA_POOL_ROOT" "trieWalk t DA_POOL_ROOT 3 = Some 6"
           "trieBranchEnd t 6" "trieGetTailSuffix t 6 = None"
    by (cases X) auto
  have "prefix_search_from t True (3 # 1 # rest) = Some empty_iterator"
    using w by (simp add: prefix_search_from_def trieWalkTail_def)
  with t f p show ?thesis unfolding X_def[symmetric] by simp
qed

end
